theory Spec2Isabelle
  imports Main "HOL-Library.Sublist"
begin

section \<open>The host language: numbers and Date objects\<close>

text \<open>
  The reservation script is JavaScript. Its date arithmetic goes through the built-in
  \<open>Date\<close> object, whose methods ECMA-262 (section 21.4.1) defines by a handful of
  abstract operations on a time value, a whole number of milliseconds. Those operations
  are written out below under their ECMA-262 names.

  Time values here are local wall-clock values of a zone with a fixed offset (the
  scheduled job runs on UTC machines), so local values and UTC values differ by a
  constant and differences of instants are the same in both. Daylight-saving shifts and
  the Invalid Date (a time value outside plus or minus 8.64e15 ms) are outside the model.
\<close>

definition msPerDay :: int where
  "msPerDay = 86400000"

definition Day :: "int \<Rightarrow> int" where
  "Day t = t div msPerDay"

definition TimeWithinDay :: "int \<Rightarrow> int" where
  "TimeWithinDay t = t mod msPerDay"

definition DaysInYear :: "int \<Rightarrow> int" where
  "DaysInYear y =
     (if y mod 4 \<noteq> 0 then 365
      else if y mod 100 \<noteq> 0 then 366
      else if y mod 400 \<noteq> 0 then 365
      else 366)"

definition DayFromYear :: "int \<Rightarrow> int" where
  "DayFromYear y =
     365 * (y - 1970) + (y - 1969) div 4 - (y - 1901) div 100 + (y - 1601) div 400"

text \<open>
  ECMA-262: \<open>YearFromTime(t)\<close> is the largest integer \<open>y\<close> with
  \<open>TimeFromYear(y) \<le> t\<close>. A year lasts 146097/400 days on average, which gives an
  estimate that is off by at most one year; the two comparisons settle it.
\<close>

definition YearFromDay :: "int \<Rightarrow> int" where
  "YearFromDay d =
     (let y = 1970 + (400 * d) div 146097
      in if DayFromYear (y + 1) \<le> d then y + 1
         else if DayFromYear y \<le> d then y
         else y - 1)"

definition YearFromTime :: "int \<Rightarrow> int" where
  "YearFromTime t = YearFromDay (Day t)"

definition InLeapYear :: "int \<Rightarrow> bool" where
  "InLeapYear t = (DaysInYear (YearFromTime t) = 366)"

definition DayWithinYear :: "int \<Rightarrow> int" where
  "DayWithinYear t = Day t - DayFromYear (YearFromTime t)"

text \<open>
  \<open>monthStart leap m\<close> is the day number within the year on which month \<open>m\<close>
  (0 is January) begins: the table behind \<open>MonthFromTime\<close> and \<open>DateFromTime\<close>.
\<close>

definition monthStart :: "bool \<Rightarrow> int \<Rightarrow> int" where
  "monthStart leap m =
     (let l = (if leap then 1 else 0)
      in if m \<le> 0 then 0
         else if m = 1 then 31
         else if m = 2 then 59 + l
         else if m = 3 then 90 + l
         else if m = 4 then 120 + l
         else if m = 5 then 151 + l
         else if m = 6 then 181 + l
         else if m = 7 then 212 + l
         else if m = 8 then 243 + l
         else if m = 9 then 273 + l
         else if m = 10 then 304 + l
         else 334 + l)"

definition MonthFromTime :: "int \<Rightarrow> int" where
  "MonthFromTime t =
     (let d = DayWithinYear t; l = (if InLeapYear t then 1 else 0)
      in if d < 31 then 0
         else if d < 59 + l then 1
         else if d < 90 + l then 2
         else if d < 120 + l then 3
         else if d < 151 + l then 4
         else if d < 181 + l then 5
         else if d < 212 + l then 6
         else if d < 243 + l then 7
         else if d < 273 + l then 8
         else if d < 304 + l then 9
         else if d < 334 + l then 10
         else 11)"

definition DateFromTime :: "int \<Rightarrow> int" where
  "DateFromTime t = DayWithinYear t + 1 - monthStart (InLeapYear t) (MonthFromTime t)"

definition WeekDay :: "int \<Rightarrow> int" where
  "WeekDay t = (Day t + 4) mod 7"





definition MakeTime :: "int \<Rightarrow> int \<Rightarrow> int \<Rightarrow> int \<Rightarrow> int" where
  "MakeTime hour minute sec ms = hour * 3600000 + minute * 60000 + sec * 1000 + ms"

text \<open>
  \<open>MakeDay\<close> carries a month outside 0..11 into the year, then counts \<open>date - 1\<close>
  days from the first of the month, whatever the sign or size of \<open>date\<close>: this is
  what makes \<open>setDate(getDate() + n)\<close> a calendar-day addition.
\<close>

definition MakeDay :: "int \<Rightarrow> int \<Rightarrow> int \<Rightarrow> int" where
  "MakeDay year month date =
     (let ym = year + month div 12; mn = month mod 12
      in DayFromYear ym + monthStart (DaysInYear ym = 366) mn + date - 1)"

definition MakeDate :: "int \<Rightarrow> int \<Rightarrow> int" where
  "MakeDate day time = day * msPerDay + time"

text \<open>A \<open>Date\<close> object holds one time value; every setter returns the updated object.\<close>

datatype date = Date (timeValue: int)

definition getTime :: "date \<Rightarrow> int" where
  "getTime d = timeValue d"

definition getDay :: "date \<Rightarrow> int" where
  "getDay d = WeekDay (timeValue d)"

definition getDate :: "date \<Rightarrow> int" where
  "getDate d = DateFromTime (timeValue d)"

definition getMonth :: "date \<Rightarrow> int" where
  "getMonth d = MonthFromTime (timeValue d)"

definition getFullYear :: "date \<Rightarrow> int" where
  "getFullYear d = YearFromTime (timeValue d)"





definition setDate :: "date \<Rightarrow> int \<Rightarrow> date" where
  "setDate d dt =
     (let t = timeValue d
      in Date (MakeDate (MakeDay (YearFromTime t) (MonthFromTime t) dt) (TimeWithinDay t)))"

definition setHours :: "date \<Rightarrow> int \<Rightarrow> int \<Rightarrow> int \<Rightarrow> int \<Rightarrow> date" where
  "setHours d hour minute sec ms =
     Date (MakeDate (Day (timeValue d)) (MakeTime hour minute sec ms))"

text \<open>
  The remainder operator \<open>%\<close> of JavaScript truncates towards zero: its result has the
  sign of the dividend.
\<close>

definition js_rem :: "int \<Rightarrow> int \<Rightarrow> int" where
  "js_rem a b = sgn a * (\<bar>a\<bar> mod \<bar>b\<bar>)"

section \<open>Date math of the planner (src/utils.js)\<close>

definition nextWeekdayOnOrAfter :: "date \<Rightarrow> int \<Rightarrow> date" where
  "nextWeekdayOnOrAfter baseDate weekday =
     (let date = baseDate;
          diff = js_rem (weekday - getDay date + 7) 7
      in setDate date (getDate date + diff))"

definition computeTargetClassDate :: "int \<Rightarrow> date \<Rightarrow> date" where
  "computeTargetClassDate targetWeekday now =
     (let base = setDate now (getDate now + 7)
      in nextWeekdayOnOrAfter base targetWeekday)"

definition computeOpenTimeForClass :: "date \<Rightarrow> int \<Rightarrow> int \<Rightarrow> int \<Rightarrow> date" where
  "computeOpenTimeForClass classDate hour minute second =
     (let openAt = setDate classDate (getDate classDate - 8)
      in setHours openAt hour minute second 0)"


section \<open>Strings, the schedule URL and card matching (src/utils.js)\<close>

text \<open>
  Strings are lists of bytes (UTF-8). \<open>String(n)\<close> of a whole number is its decimal
  numeral, and \<open>padStart(2, "0")\<close> fills a shorter string with zeros on the left.
\<close>

definition digitChar :: "nat \<Rightarrow> char" where
  "digitChar n = char_of (48 + n)"

fun natToString :: "nat \<Rightarrow> string" where
  "natToString n = (if n < 10 then [digitChar n] else natToString (n div 10) @ [digitChar (n mod 10)])"

declare natToString.simps [simp del]

definition String :: "int \<Rightarrow> string" where
  "String n = (if n < 0 then CHR ''-'' # natToString (nat (- n)) else natToString (nat n))"

definition padStart :: "string \<Rightarrow> nat \<Rightarrow> char \<Rightarrow> string" where
  "padStart str n c = replicate (n - length str) c @ str"

definition toISODate :: "date \<Rightarrow> string" where
  "toISODate date =
     (let year = getFullYear date;
          month = padStart (String (getMonth date + 1)) 2 (CHR ''0'');
          day = padStart (String (getDate date)) 2 (CHR ''0'')
      in String year @ ''-'' @ month @ ''-'' @ day)"

text \<open>
  \<open>URLSearchParams\<close>: an ordered list of name-value pairs. \<open>set\<close> overwrites the
  first pair of that name and drops the later ones, or appends a new pair. \<open>toString\<close>
  is the application/x-www-form-urlencoded serializer of the URL standard: letters,
  digits and \<open>* - . _\<close> stay, a space becomes \<open>+\<close>, every other byte becomes
  \<open>%XX\<close> in upper-case hexadecimal; pairs are written \<open>name=value\<close> and joined by
  \<open>&\<close>.
\<close>

type_synonym search_params = "(string \<times> string) list"

fun paramsSet :: "search_params \<Rightarrow> string \<Rightarrow> string \<Rightarrow> search_params" where
  "paramsSet [] name v = [(name, v)]"
| "paramsSet ((k, x) # ps) name v =
     (if k = name then (k, v) # filter (\<lambda>p. fst p \<noteq> name) ps
      else (k, x) # paramsSet ps name v)"

definition urlencodedKeep :: "char \<Rightarrow> bool" where
  "urlencodedKeep c =
     (let n = (of_char c :: nat)
      in (48 \<le> n \<and> n \<le> 57) \<or> (65 \<le> n \<and> n \<le> 90) \<or> (97 \<le> n \<and> n \<le> 122)
         \<or> n = 42 \<or> n = 45 \<or> n = 46 \<or> n = 95)"

definition hexDigit :: "nat \<Rightarrow> char" where
  "hexDigit n = (if n < 10 then char_of (48 + n) else char_of (55 + n))"

definition urlencodeByte :: "char \<Rightarrow> string" where
  "urlencodeByte c =
     (if urlencodedKeep c then [c]
      else if c = CHR '' '' then ''+''
      else [CHR ''%'', hexDigit ((of_char c :: nat) div 16), hexDigit ((of_char c :: nat) mod 16)])"

definition urlencode :: "string \<Rightarrow> string" where
  "urlencode str = concat (map urlencodeByte str)"

fun joinWith :: "char \<Rightarrow> string list \<Rightarrow> string" where
  "joinWith c [] = []"
| "joinWith c [x] = x"
| "joinWith c (x # y # ys) = x @ c # joinWith c (y # ys)"

definition paramsToString :: "search_params \<Rightarrow> string" where
  "paramsToString ps =
     joinWith (CHR ''&'') (map (\<lambda>(k, v). urlencode k @ CHR ''='' # urlencode v) ps)"

text \<open>
  The options object of \<open>buildScheduleUrl\<close>: a property that is absent
  (\<open>undefined\<close>) is \<open>None\<close> and takes the default of its parameter. A string is falsy
  exactly when it is absent or empty.
\<close>

record schedule_options =
  clubPath :: "string option"
  selectedDate :: "string option"
  location :: "string option"
  interest :: "string option"
  mode :: "string option"
  teamMemberView :: "bool option"

definition orDefault :: "'a option \<Rightarrow> 'a \<Rightarrow> 'a" where
  "orDefault v d = (case v of None \<Rightarrow> d | Some x \<Rightarrow> x)"

definition truthyString :: "string option \<Rightarrow> bool" where
  "truthyString v = (case v of None \<Rightarrow> False | Some x \<Rightarrow> x \<noteq> [])"

datatype error =
    MissingCredentials
  | SelectedDateRequired
  | DayColumnsMissing
  | NoMatchingCard
  | ReserveTimedOut
  | SurfaceError string

definition buildScheduleUrl :: "schedule_options \<Rightarrow> error + string" where
  "buildScheduleUrl opts =
     (let clubPath = orDefault (clubPath opts) ''https://my.lifetime.life/clubs/va/fairfax/classes.html'';
          location = orDefault (location opts) ''Fairfax'';
          interest = orDefault (interest opts) ''Pickleball Open Play'';
          mode = orDefault (mode opts) ''week'';
          teamMemberView = orDefault (teamMemberView opts) True
      in if \<not> truthyString (selectedDate opts) then Inl SelectedDateRequired
         else
           let params = [];
               params = (if teamMemberView then paramsSet params ''teamMemberView'' ''true'' else params);
               params = paramsSet params ''mode'' mode;
               params = paramsSet params ''selectedDate'' (orDefault (selectedDate opts) []);
               params = paramsSet params ''interest'' interest;
               params = paramsSet params ''location'' location
           in Inr (clubPath @ ''?'' @ paramsToString params))"

text \<open>
  \<open>text.includes(s)\<close> looks for \<open>s\<close> at every position of \<open>text\<close>, from the left;
  \<open>every\<close> is true of the empty array.
\<close>

fun includes_str :: "'a list \<Rightarrow> 'a list \<Rightarrow> bool" where
  "includes_str [] s = (s = [])"
| "includes_str (c # cs) s = (prefix s (c # cs) \<or> includes_str cs s)"

definition cardMatches :: "string \<Rightarrow> string list \<Rightarrow> bool" where
  "cardMatches cardText mustInclude = list_all (\<lambda>s. includes_str cardText s) mustInclude"


section \<open>The browser surface, the clock and the configuration\<close>

text \<open>
  Everything the script asks of Playwright is a call on the surface. The surface is an
  oracle: for a call made at instant \<open>t\<close> it says whether the promise rejects, how many
  milliseconds it takes to settle, and what it answers. The script itself only reads the
  clock and the answers, so a run is a function of the configuration, the surface and the
  starting instant.
\<close>

datatype locator =
    ReserveBtn | FinishBtn | WaitlistBtn | AcceptAllBtn
  | UsernameField | PasswordField | SubmitBtn | FirstClassCell | DayColumns
  | Cards nat | Card nat nat | ClassLink nat nat

datatype surface_op =
    Launch | NewContext | NewPage
  | Goto string
  | Fill locator string
  | WaitForLoadState
  | WaitForURL
  | Click locator
  | WaitFor locator
  | IsVisible locator
  | Count locator
  | InnerText locator
  | Reload
  | WaitForTimeout int
  | Close

record surface =
  rejects :: "surface_op \<Rightarrow> int \<Rightarrow> bool"
  latency :: "surface_op \<Rightarrow> int \<Rightarrow> nat"
  shown :: "locator \<Rightarrow> int \<Rightarrow> bool"
  counted :: "locator \<Rightarrow> int \<Rightarrow> nat"
  rendered :: "locator \<Rightarrow> int \<Rightarrow> string"
  timerLag :: "int \<Rightarrow> nat"
  spinLag :: "int \<Rightarrow> nat"

datatype event =
    Called surface_op
  | Slept int
  | Spun int
  | Logged string

record world =
  now :: int
  trace :: "event list"

text \<open>
  The constants of \<open>src/constants.js\<close> and the two environment variables are parameters
  of the run.
\<close>

record open_time =
  hour :: int
  minute :: int
  second :: int

record config =
  EMAIL :: "string option"
  PASSWORD :: "string option"
  LOGIN_URL :: string
  TARGET_WEEKDAY :: int
  TARGET_DAY_INDEX :: nat
  MUST_INCLUDE :: "string list"
  OPEN_TIME :: open_time
  READY_MINUTES_BEFORE :: int
  USE_WAIT_UNTIL_OPEN :: bool
  SCHEDULE_DEFAULTS :: schedule_options
  RESERVE_RETRY_MS :: int
  RESERVE_MAX_WAIT_MS :: int

type_synonym 'a outcome = "(error + 'a) \<times> world"

definition andThen :: "'a outcome \<Rightarrow> ('a \<Rightarrow> world \<Rightarrow> 'b outcome) \<Rightarrow> 'b outcome" where
  "andThen r f = (case r of (Inl e, w) \<Rightarrow> (Inl e, w) | (Inr x, w) \<Rightarrow> f x w)"

definition opName :: "surface_op \<Rightarrow> string" where
  "opName op =
     (case op of
        Launch \<Rightarrow> ''launch'' | NewContext \<Rightarrow> ''newContext'' | NewPage \<Rightarrow> ''newPage''
      | Goto u \<Rightarrow> ''goto'' | Fill sel v \<Rightarrow> ''fill'' | WaitForLoadState \<Rightarrow> ''waitForLoadState''
      | WaitForURL \<Rightarrow> ''waitForURL'' | Click l \<Rightarrow> ''click'' | WaitFor l \<Rightarrow> ''waitFor''
      | IsVisible l \<Rightarrow> ''isVisible'' | Count l \<Rightarrow> ''count'' | InnerText l \<Rightarrow> ''innerText''
      | Reload \<Rightarrow> ''reload'' | WaitForTimeout n \<Rightarrow> ''waitForTimeout'' | Close \<Rightarrow> ''close'')"

text \<open>
  \<open>await\<close> of a surface call: the call is recorded, its latency passes, and it either
  resolves or rejects.
\<close>

definition settle :: "surface \<Rightarrow> surface_op \<Rightarrow> world \<Rightarrow> world" where
  "settle s op w = w\<lparr>now := now w + int (latency s op (now w)), trace := trace w @ [Called op]\<rparr>"

definition call :: "surface \<Rightarrow> surface_op \<Rightarrow> world \<Rightarrow> unit outcome" where
  "call s op w =
     (if rejects s op (now w) then (Inl (SurfaceError (opName op)), settle s op w)
      else (Inr (), settle s op w))"

text \<open>
  \<open>Promise.all\<close> of two calls started together: it rejects if either rejects and
  settles when the slower one has settled.
\<close>

definition callBoth :: "surface \<Rightarrow> surface_op \<Rightarrow> surface_op \<Rightarrow> world \<Rightarrow> unit outcome" where
  "callBoth s op1 op2 w =
     (let w' = w\<lparr>now := now w + int (max (latency s op1 (now w)) (latency s op2 (now w))),
                 trace := trace w @ [Called op1, Called op2]\<rparr>
      in if rejects s op1 (now w) then (Inl (SurfaceError (opName op1)), w')
         else if rejects s op2 (now w) then (Inl (SurfaceError (opName op2)), w')
         else (Inr (), w'))"

text \<open>\<open>await locator.isVisible().catch(() => false)\<close>: a rejected probe answers false.\<close>

definition visibleAt :: "surface \<Rightarrow> locator \<Rightarrow> int \<Rightarrow> bool" where
  "visibleAt s l t = (\<not> rejects s (IsVisible l) t \<and> shown s l t)"

definition isVisible :: "surface \<Rightarrow> locator \<Rightarrow> world \<Rightarrow> bool \<times> world" where
  "isVisible s l w = (visibleAt s l (now w), settle s (IsVisible l) w)"

text \<open>
  \<open>console.log\<close> and \<open>console.error\<close>: the fixed text of the message is recorded, the
  values printed after it are not.
\<close>

definition consoleLog :: "string \<Rightarrow> world \<Rightarrow> world" where
  "consoleLog msg w = w\<lparr>trace := trace w @ [Logged msg]\<rparr>"

text \<open>
  \<open>sleep(ms)\<close> is a timer: it fires no earlier than \<open>ms\<close> milliseconds from now (a
  negative delay counts as zero), and as much later as the scheduler makes it.
\<close>

definition sleep :: "surface \<Rightarrow> int \<Rightarrow> world \<Rightarrow> world" where
  "sleep s ms w = w\<lparr>now := now w + max ms 0 + int (timerLag s (now w)), trace := trace w @ [Slept ms]\<rparr>"

definition msUntilDateTime :: "date \<Rightarrow> int \<Rightarrow> int" where
  "msUntilDateTime targetDate nowMs = getTime targetDate - nowMs"

text \<open>
  \<open>while (msUntilDateTime(openAt) > 0) {}\<close>: the body is empty and the guard only reads
  the clock, so all the loop does is let time pass. It is entered with the target still
  ahead and left at the first reading that is not before the target: the target instant,
  plus whatever the machine was late by.
\<close>

definition busyWait :: "surface \<Rightarrow> date \<Rightarrow> world \<Rightarrow> world" where
  "busyWait s target w =
     (if msUntilDateTime target (now w) > 0
      then w\<lparr>now := getTime target + int (spinLag s (getTime target)),
             trace := trace w @ [Spun (getTime target)]\<rparr>
      else w)"


text \<open>
  \<open>count()\<close> and \<open>innerText()\<close> resolve to what the page holds at the instant of the
  call.
\<close>

definition count :: "surface \<Rightarrow> locator \<Rightarrow> world \<Rightarrow> nat outcome" where
  "count s l w =
     (if rejects s (Count l) (now w) then (Inl (SurfaceError (opName (Count l))), settle s (Count l) w)
      else (Inr (counted s l (now w)), settle s (Count l) w))"

definition innerText :: "surface \<Rightarrow> locator \<Rightarrow> world \<Rightarrow> string outcome" where
  "innerText s l w =
     (if rejects s (InnerText l) (now w)
      then (Inl (SurfaceError (opName (InnerText l))), settle s (InnerText l) w)
      else (Inr (rendered s l (now w)), settle s (InnerText l) w))"

section \<open>Reserving and the cookie banner (src/utils.js)\<close>

text \<open>
  One pass through the body of the polling loop of \<open>clickReserveAndFinish\<close>: it either
  leaves the function (\<open>Inl\<close>: by \<open>return\<close>, or with the error of a rejected click or
  wait) or goes round again in the world after the sleep and the reload (\<open>Inr\<close>). A
  rejected reload is swallowed.
\<close>

definition pollOnce :: "config \<Rightarrow> surface \<Rightarrow> world \<Rightarrow> unit outcome + world" where
  "pollOnce cfg s w =
     (case isVisible s ReserveBtn w of
        (True, w1) \<Rightarrow>
          Inl (andThen (call s (Click ReserveBtn) (consoleLog ''Reserve visible. Clicking Reserve...'' w1))
                (\<lambda>_ w2. andThen (call s (WaitFor FinishBtn) (consoleLog ''Waiting for Finish...'' w2))
                (\<lambda>_ w3. andThen (call s (Click FinishBtn) w3)
                (\<lambda>_ w4. (Inr (), consoleLog ''Finish clicked. Reservation complete.'' w4)))))
      | (False, w1) \<Rightarrow>
          (case isVisible s WaitlistBtn w1 of
             (True, w2) \<Rightarrow> Inl (Inr (), consoleLog ''Class is waitlisted. Stopping retries.'' w2)
           | (False, w2) \<Rightarrow> Inr (settle s Reload (sleep s (RESERVE_RETRY_MS cfg) w2))))"

text \<open>
  The loop runs while the clock is within \<open>RESERVE_MAX_WAIT_MS\<close> of the start. Nothing in
  the code bounds the number of passes, so the loop is a partial function: \<open>None\<close> is a
  call that never returns.
\<close>

partial_function (option) pollReserve :: "config \<Rightarrow> surface \<Rightarrow> int \<Rightarrow> world \<Rightarrow> unit outcome option" where
  "pollReserve cfg s start w =
     (if now w - start < RESERVE_MAX_WAIT_MS cfg
      then (case pollOnce cfg s w of
              Inl r \<Rightarrow> Some r
            | Inr w' \<Rightarrow> pollReserve cfg s start w')
      else Some (Inl ReserveTimedOut, w))"

definition clickReserveAndFinish :: "config \<Rightarrow> surface \<Rightarrow> world \<Rightarrow> unit outcome option" where
  "clickReserveAndFinish cfg s w = pollReserve cfg s (now w) w"

text \<open>Whatever goes wrong inside \<open>dismissCookieBanner\<close> is caught: it always returns.\<close>

definition dismissCookieBanner :: "surface \<Rightarrow> world \<Rightarrow> world" where
  "dismissCookieBanner s w =
     (case call s (WaitFor AcceptAllBtn) w of
        (Inl e, w1) \<Rightarrow> consoleLog ''No cookie banner.'' w1
      | (Inr _, w1) \<Rightarrow>
          (case call s (Click AcceptAllBtn) (consoleLog ''Cookie banner detected. Clicking Accept All...'' w1) of
             (Inl e, w2) \<Rightarrow> consoleLog ''No cookie banner.'' w2
           | (Inr _, w2) \<Rightarrow> sleep s 400 w2))"


section \<open>The reservation flow (the main script)\<close>

text \<open>The two waits of \<open>run\<close>: before the browser is launched, and on the details page.\<close>

definition waitUntilReady :: "config \<Rightarrow> surface \<Rightarrow> date \<Rightarrow> world \<Rightarrow> world" where
  "waitUntilReady cfg s readyAt w =
     (if USE_WAIT_UNTIL_OPEN cfg
      then (let msToReady = msUntilDateTime readyAt (now w)
            in if msToReady > 0
               then sleep s msToReady (consoleLog ''Sleeping until ready time (ms):'' w)
               else w)
      else w)"

definition waitUntilOpen :: "config \<Rightarrow> surface \<Rightarrow> date \<Rightarrow> world \<Rightarrow> world" where
  "waitUntilOpen cfg s openAt w =
     (if USE_WAIT_UNTIL_OPEN cfg
      then (let msToOpen = msUntilDateTime openAt (now w)
            in if msToOpen > 0
               then (let w1 = consoleLog ''Waiting until open (ms):'' w;
                         w2 = (if msToOpen > 400 then sleep s (msToOpen - 200) w1 else w1)
                     in busyWait s openAt w2)
               else w)
      else w)"

definition launchBrowser :: "surface \<Rightarrow> world \<Rightarrow> unit outcome" where
  "launchBrowser s w =
     andThen (call s Launch (consoleLog ''Launching browser...'' w))
       (\<lambda>_ w1. andThen (call s NewContext w1)
       (\<lambda>_ w2. call s NewPage w2))"

definition login :: "config \<Rightarrow> surface \<Rightarrow> world \<Rightarrow> unit outcome" where
  "login cfg s w =
     andThen (call s (Goto (LOGIN_URL cfg)) (consoleLog ''Navigating to login...'' w))
       (\<lambda>_ w1. andThen (call s (Fill UsernameField (orDefault (EMAIL cfg) [])) w1)
       (\<lambda>_ w2. andThen (call s (Fill PasswordField (orDefault (PASSWORD cfg) [])) w2)
       (\<lambda>_ w3. andThen (callBoth s WaitForLoadState (Click SubmitBtn) w3)
       (\<lambda>_ w4. (Inr (), consoleLog ''Logged in.'' w4)))))"

definition openSchedulePage :: "surface \<Rightarrow> string \<Rightarrow> world \<Rightarrow> unit outcome" where
  "openSchedulePage s scheduleUrl w =
     andThen (call s (Goto scheduleUrl) (consoleLog ''Opening schedule page...'' w))
       (\<lambda>_ w1. call s (WaitFor FirstClassCell) (dismissCookieBanner s w1))"

text \<open>
  The search for the class tile: the cards of the target column are read in order, and
  the first whose text matches is taken (\<open>break\<close>). \<open>None\<close> is \<open>targetCard = null\<close>.
\<close>

fun findCard :: "config \<Rightarrow> surface \<Rightarrow> nat list \<Rightarrow> world \<Rightarrow> nat option outcome" where
  "findCard cfg s [] w = (Inr None, w)"
| "findCard cfg s (i # rest) w =
     andThen (innerText s (Card (TARGET_DAY_INDEX cfg) i) w)
       (\<lambda>text w1. if cardMatches text (MUST_INCLUDE cfg)
                   then (Inr (Some i), consoleLog ''Matched card:'' w1)
                   else findCard cfg s rest w1)"

definition selectCard :: "config \<Rightarrow> surface \<Rightarrow> world \<Rightarrow> nat outcome" where
  "selectCard cfg s w =
     andThen (count s DayColumns w)
       (\<lambda>dayCount w1.
          if dayCount < 7 then (Inl DayColumnsMissing, w1)
          else andThen (count s (Cards (TARGET_DAY_INDEX cfg)) w1)
                 (\<lambda>cardCount w2. andThen (findCard cfg s [0..<cardCount] w2)
                 (\<lambda>targetCard w3.
                    case targetCard of
                      None \<Rightarrow> (Inl NoMatchingCard, w3)
                    | Some i \<Rightarrow> (Inr i, w3))))"

definition enterDetails :: "config \<Rightarrow> surface \<Rightarrow> nat \<Rightarrow> world \<Rightarrow> unit outcome" where
  "enterDetails cfg s i w =
     andThen (callBoth s WaitForURL (Click (ClassLink (TARGET_DAY_INDEX cfg) i))
                (consoleLog ''Clicking class (entering details page)...'' w))
       (\<lambda>_ w1. (Inr (), dismissCookieBanner s w1))"

text \<open>The body of the \<open>try\<close> block up to the call of \<open>clickReserveAndFinish\<close>.\<close>

definition beforeAttempt :: "config \<Rightarrow> surface \<Rightarrow> string \<Rightarrow> date \<Rightarrow> world \<Rightarrow> unit outcome" where
  "beforeAttempt cfg s scheduleUrl openAt w =
     andThen (login cfg s w)
       (\<lambda>_ w1. andThen (openSchedulePage s scheduleUrl w1)
       (\<lambda>_ w2. andThen (selectCard cfg s w2)
       (\<lambda>i w3. andThen (enterDetails cfg s i w3)
       (\<lambda>_ w4. (Inr (),
            consoleLog ''Attempting reserve (retry up to 5 minutes)...''
              (waitUntilOpen cfg s openAt
                (consoleLog ''On class details page. Waiting until open time...'' w4)))))))"

text \<open>The rest of the \<open>try\<close> block, after \<open>clickReserveAndFinish\<close> has returned.\<close>

definition afterAttempt :: "surface \<Rightarrow> world \<Rightarrow> unit outcome" where
  "afterAttempt s w = call s (WaitForTimeout 1000) (consoleLog ''Done.'' w)"

definition tryBlock :: "config \<Rightarrow> surface \<Rightarrow> string \<Rightarrow> date \<Rightarrow> world \<Rightarrow> unit outcome option" where
  "tryBlock cfg s scheduleUrl openAt w =
     (case beforeAttempt cfg s scheduleUrl openAt w of
        (Inl e, w1) \<Rightarrow> Some (Inl e, w1)
      | (Inr _, w1) \<Rightarrow>
          (case clickReserveAndFinish cfg s w1 of
             None \<Rightarrow> None
           | Some (Inl e, w2) \<Rightarrow> Some (Inl e, w2)
           | Some (Inr _, w2) \<Rightarrow> Some (afterAttempt s w2)))"

text \<open>
  \<open>finally { await browser.close(); }\<close>: the browser is closed however the block ended;
  if closing rejects, that error replaces the block's result.
\<close>

definition finallyClose :: "surface \<Rightarrow> unit outcome \<Rightarrow> unit outcome" where
  "finallyClose s r =
     (case r of (res, w) \<Rightarrow>
        (case call s Close w of
           (Inl e, w') \<Rightarrow> (Inl e, w')
         | (Inr _, w') \<Rightarrow> (res, w')))"

definition readyAtOf :: "config \<Rightarrow> date \<Rightarrow> date" where
  "readyAtOf cfg openAt = Date (getTime openAt - READY_MINUTES_BEFORE cfg * 60000)"

definition scheduleUrlOf :: "config \<Rightarrow> date \<Rightarrow> error + string" where
  "scheduleUrlOf cfg classDate =
     (let selectedDate = toISODate classDate
      in buildScheduleUrl
           \<lparr>clubPath = clubPath (SCHEDULE_DEFAULTS cfg),
            selectedDate = Some selectedDate,
            location = location (SCHEDULE_DEFAULTS cfg),
            interest = interest (SCHEDULE_DEFAULTS cfg),
            mode = mode (SCHEDULE_DEFAULTS cfg),
            teamMemberView = teamMemberView (SCHEDULE_DEFAULTS cfg)\<rparr>)"

definition announce :: "world \<Rightarrow> world" where
  "announce w =
     consoleLog ''Schedule URL:''
       (consoleLog ''Ready at:''
         (consoleLog ''Open at:''
           (consoleLog ''Target classDate:''
             (consoleLog ''Now:'' w))))"

definition run :: "config \<Rightarrow> surface \<Rightarrow> date \<Rightarrow> date \<Rightarrow> world \<Rightarrow> unit outcome option" where
  "run cfg s classDate openAt w =
     (if \<not> truthyString (EMAIL cfg) \<or> \<not> truthyString (PASSWORD cfg)
      then Some (Inl MissingCredentials, w)
      else
        let readyAt = readyAtOf cfg openAt
        in case scheduleUrlOf cfg classDate of
             Inl e \<Rightarrow> Some (Inl e, w)
           | Inr scheduleUrl \<Rightarrow>
               (let w1 = announce w;
                    w2 = waitUntilReady cfg s readyAt w1
                in case launchBrowser s w2 of
                     (Inl e, w3) \<Rightarrow> Some (Inl e, w3)
                   | (Inr _, w3) \<Rightarrow>
                       (case tryBlock cfg s scheduleUrl openAt w3 of
                          None \<Rightarrow> None
                        | Some r \<Rightarrow> Some (finallyClose s r))))"

text \<open>
  The top level of the script: the session window is computed from the clock, the flow is
  started, and a rejection is caught, printed and turned into \<open>process.exitCode = 1\<close>.
  A process whose \<open>exitCode\<close> was never set exits with 0. The result is the exit code and
  the final world, or \<open>None\<close> if the flow never ends.
\<close>

definition exitCodeOf :: "unit outcome \<Rightarrow> int \<times> world" where
  "exitCodeOf r =
     (case r of
        (Inl err, w) \<Rightarrow> (1, consoleLog ''Error:'' w)
      | (Inr _, w) \<Rightarrow> (0, w))"

definition sessionWindow :: "config \<Rightarrow> world \<Rightarrow> date \<times> date" where
  "sessionWindow cfg w =
     (let classDate = computeTargetClassDate (TARGET_WEEKDAY cfg) (Date (now w));
          openAt = computeOpenTimeForClass classDate
                     (hour (OPEN_TIME cfg)) (minute (OPEN_TIME cfg)) (second (OPEN_TIME cfg))
      in (classDate, openAt))"

definition main :: "config \<Rightarrow> surface \<Rightarrow> world \<Rightarrow> (int \<times> world) option" where
  "main cfg s w =
     (case sessionWindow cfg w of (classDate, openAt) \<Rightarrow>
        map_option exitCodeOf (run cfg s classDate openAt w))"

definition exitCode :: "config \<Rightarrow> surface \<Rightarrow> world \<Rightarrow> int option" where
  "exitCode cfg s w = map_option fst (main cfg s w)"


text \<open>
  The world in which \<open>clickReserveAndFinish\<close> is called, for a run that gets that far:
  the credentials are there, the browser is launched and the \<open>try\<close> block has reached
  the details page and waited for the open instant.
\<close>

definition reachesAttempt :: "config \<Rightarrow> surface \<Rightarrow> world \<Rightarrow> world option" where
  "reachesAttempt cfg s w =
     (case sessionWindow cfg w of (classDate, openAt) \<Rightarrow>
        if \<not> truthyString (EMAIL cfg) \<or> \<not> truthyString (PASSWORD cfg) then None
        else case scheduleUrlOf cfg classDate of
               Inl e \<Rightarrow> None
             | Inr scheduleUrl \<Rightarrow>
                 (case launchBrowser s (waitUntilReady cfg s (readyAtOf cfg openAt) (announce w)) of
                    (Inl e, w3) \<Rightarrow> None
                  | (Inr _, w3) \<Rightarrow>
                      (case beforeAttempt cfg s scheduleUrl openAt w3 of
                         (Inl e, w4) \<Rightarrow> None
                       | (Inr _, w4) \<Rightarrow> Some w4)))"

text \<open>
  The closing steps after a normal return of \<open>clickReserveAndFinish\<close> at instant \<open>t\<close>:
  the one-second pause and the closing of the browser, neither rejecting.
\<close>

definition closesCleanly :: "surface \<Rightarrow> int \<Rightarrow> bool" where
  "closesCleanly s t =
     (\<not> rejects s (WaitForTimeout 1000) t
      \<and> \<not> rejects s Close (t + int (latency s (WaitForTimeout 1000) t)))"

text \<open>
  A pass of the polling loop that sees neither control ends in \<open>nextPass\<close>: both
  probes, the sleep and the reload. \<open>passes n\<close> is the world after \<open>n\<close> such passes,
  and \<open>pollAnswers\<close> is what the two probes of a pass starting in a world answer: the
  reserve probe at once, the waitlist probe when the reserve probe has settled.
\<close>

definition nextPass :: "config \<Rightarrow> surface \<Rightarrow> world \<Rightarrow> world" where
  "nextPass cfg s w =
     settle s Reload (sleep s (RESERVE_RETRY_MS cfg)
       (settle s (IsVisible WaitlistBtn) (settle s (IsVisible ReserveBtn) w)))"

fun passes :: "config \<Rightarrow> surface \<Rightarrow> nat \<Rightarrow> world \<Rightarrow> world" where
  "passes cfg s 0 w = w"
| "passes cfg s (Suc n) w = passes cfg s n (nextPass cfg s w)"

definition pollAnswers :: "surface \<Rightarrow> world \<Rightarrow> bool \<times> bool" where
  "pollAnswers s w =
     (visibleAt s ReserveBtn (now w),
      visibleAt s WaitlistBtn (now w + int (latency s (IsVisible ReserveBtn) (now w))))"

section \<open>The wait protocol of the specification\<close>






section \<open>Reading a query string back\<close>

text \<open>
  What the receiving side makes of a query string (the application/x-www-form-urlencoded
  parser of the URL standard): the string is cut at every \<open>&\<close>, empty pieces are
  dropped, each piece is cut at its first \<open>=\<close>, and in both halves \<open>+\<close> becomes a
  space and \<open>%XX\<close> the byte it names.
\<close>

fun splitOn :: "char \<Rightarrow> string \<Rightarrow> string list" where
  "splitOn c [] = [[]]"
| "splitOn c (x # xs) =
     (if x = c then [] # splitOn c xs
      else (case splitOn c xs of
              [] \<Rightarrow> [[x]]
            | y # ys \<Rightarrow> (x # y) # ys))"

definition hexValue :: "char \<Rightarrow> nat option" where
  "hexValue c =
     (let n = (of_char c :: nat)
      in if 48 \<le> n \<and> n \<le> 57 then Some (n - 48)
         else if 65 \<le> n \<and> n \<le> 70 then Some (n - 55)
         else if 97 \<le> n \<and> n \<le> 102 then Some (n - 87)
         else None)"

fun urldecode :: "string \<Rightarrow> string" where
  "urldecode [] = []"
| "urldecode [c] = (if c = CHR ''+'' then '' '' else [c])"
| "urldecode [c, a] = (if c = CHR ''+'' then CHR '' '' # urldecode [a] else c # urldecode [a])"
| "urldecode (c # a # b # rest) =
     (if c = CHR ''+'' then CHR '' '' # urldecode (a # b # rest)
      else if c = CHR ''%'' \<and> hexValue a \<noteq> None \<and> hexValue b \<noteq> None
      then char_of (16 * the (hexValue a) + the (hexValue b)) # urldecode rest
      else c # urldecode (a # b # rest))"

definition parsePair :: "string \<Rightarrow> string \<times> string" where
  "parsePair p =
     (urldecode (takeWhile (\<lambda>c. c \<noteq> CHR ''='') p),
      urldecode (drop 1 (dropWhile (\<lambda>c. c \<noteq> CHR ''='') p)))"

definition parseQuery :: "string \<Rightarrow> search_params" where
  "parseQuery q = map parsePair (filter (\<lambda>p. p \<noteq> []) (splitOn (CHR ''&'') q))"

section \<open>A worked run\<close>

text \<open>
  Sunday 22 February 2026, 10:00: the job is set for the Monday class, booking opens at
  20:00. The retry interval and the retry budget are those the script's comments and its
  timeout message name (350 ms, 5 minutes). On the example surface no cookie banner
  appears, the second card of the column is the class, every other call succeeds after
  50 ms and timers fire 3 ms late; what the details page shows is left open.
\<close>

definition exampleConfig :: config where
  "exampleConfig =
     \<lparr>EMAIL = Some ''member@example.org'', PASSWORD = Some ''secret'',
      LOGIN_URL = ''https://my.lifetime.life/login.html'',
      TARGET_WEEKDAY = 1, TARGET_DAY_INDEX = 1,
      MUST_INCLUDE = [''8:00'', ''Pickleball Open Play''],
      OPEN_TIME = \<lparr>hour = 20, minute = 0, second = 0\<rparr>,
      READY_MINUTES_BEFORE = 1, USE_WAIT_UNTIL_OPEN = True,
      SCHEDULE_DEFAULTS = \<lparr>clubPath = None, selectedDate = None, location = None,
                            interest = None, mode = None, teamMemberView = None\<rparr>,
      RESERVE_RETRY_MS = 350, RESERVE_MAX_WAIT_MS = 300000\<rparr>"

definition exampleSurface :: "(locator \<Rightarrow> int \<Rightarrow> bool) \<Rightarrow> surface" where
  "exampleSurface vis =
     \<lparr>rejects = (\<lambda>op t. op = WaitFor AcceptAllBtn),
      latency = (\<lambda>op t. case op of
                           WaitFor AcceptAllBtn \<Rightarrow> 6000
                         | WaitForTimeout n \<Rightarrow> nat n
                         | _ \<Rightarrow> 50),
      shown = vis,
      counted = (\<lambda>l t. case l of DayColumns \<Rightarrow> 7 | _ \<Rightarrow> 2),
      rendered = (\<lambda>l t. case l of
                            Card d (Suc 0) \<Rightarrow> ''8:00 - 10:00 PM Pickleball Open Play: All Levels''
                          | _ \<Rightarrow> ''6:00 AM Yoga''),
      timerLag = (\<lambda>t. 3),
      spinLag = (\<lambda>t. 0)\<rparr>"

definition sundayMorning :: world where
  "sundayMorning = \<lparr>now = 1771754400000, trace = []\<rparr>"

text \<open>Three details pages: full from the start, full after a second, and blank.\<close>

definition waitlisted :: "locator \<Rightarrow> int \<Rightarrow> bool" where
  "waitlisted l t = (l = WaitlistBtn)"

definition waitlistedLater :: "locator \<Rightarrow> int \<Rightarrow> bool" where
  "waitlistedLater l t = (l = WaitlistBtn \<and> 1771790401000 \<le> t)"

definition blank :: "locator \<Rightarrow> int \<Rightarrow> bool" where
  "blank l t = False"


text \<open>
  The example run reaches the details page at 20:00:00.000 exactly, whatever the page
  will show: this is the world in which the polling starts.
\<close>

definition detailsPage :: world where
  "detailsPage =
     \<lparr>now = 1771790400000,
      trace =
        [Logged ''Now:'', Logged ''Target classDate:'', Logged ''Open at:'',
         Logged ''Ready at:'', Logged ''Schedule URL:'',
         Logged ''Sleeping until ready time (ms):'', Slept 35940000,
         Logged ''Launching browser...'', Called Launch, Called NewContext,
         Called NewPage, Logged ''Navigating to login...'',
         Called (Goto ''https://my.lifetime.life/login.html''),
         Called (Fill UsernameField ''member@example.org''),
         Called (Fill PasswordField ''secret''), Called WaitForLoadState,
         Called (Click SubmitBtn), Logged ''Logged in.'',
         Logged ''Opening schedule page...'',
         Called (Goto ''https://my.lifetime.life/clubs/va/fairfax/classes.html?teamMemberView=true&mode=week&selectedDate=2026-03-02&interest=Pickleball+Open+Play&location=Fairfax''),
         Called (WaitFor AcceptAllBtn), Logged ''No cookie banner.'',
         Called (WaitFor FirstClassCell), Called (Count DayColumns),
         Called (Count (Cards 1)), Called (InnerText (Card 1 0)),
         Called (InnerText (Card 1 1)), Logged ''Matched card:'',
         Logged ''Clicking class (entering details page)...'',
         Called WaitForURL, Called (Click (ClassLink 1 1)),
         Called (WaitFor AcceptAllBtn), Logged ''No cookie banner.'',
         Logged ''On class details page. Waiting until open time...'',
         Logged ''Waiting until open (ms):'', Slept 47097,
         Spun 1771790400000,
         Logged ''Attempting reserve (retry up to 5 minutes)...'']\<rparr>"

text \<open>The options of the example run, as \<open>run\<close> passes them.\<close>

definition exampleOptions :: schedule_options where
  "exampleOptions =
     \<lparr>clubPath = None, selectedDate = Some ''2026-03-02'', location = None,
      interest = None, mode = None, teamMemberView = None\<rparr>"

section \<open>The year of a day\<close>

text \<open>
  \<open>YearFromDay\<close> computes what ECMA-262 asks of \<open>YearFromTime\<close>: the year whose
  first day is not after the given day while the next year's is, which is the largest
  year that has begun.
\<close>

lemma div_bounds:
  fixes a b :: int
  assumes "0 < b"
  shows "b * (a div b) \<le> a" and "a - (b - 1) \<le> b * (a div b)"
proof -
  have "b * (a div b) + a mod b = a"
    by (rule mult_div_mod_eq)
  moreover have "0 \<le> a mod b" and "a mod b < b"
    using assms by simp_all
  ultimately show "b * (a div b) \<le> a" and "a - (b - 1) \<le> b * (a div b)"
    by linarith+
qed

lemma DayFromYear_bounds:
  "146097 * (y - 1970) - 506 \<le> 400 * DayFromYear y
   \<and> 400 * DayFromYear y \<le> 146097 * (y - 1970) + 589"
proof -
  define q4 where "q4 = (y - 1969) div 4"
  define q100 where "q100 = (y - 1901) div 100"
  define q400 where "q400 = (y - 1601) div 400"
  have b4: "4 * q4 \<le> y - 1969" "y - 1969 - 3 \<le> 4 * q4"
    unfolding q4_def using div_bounds [of 4 "y - 1969"] by simp_all
  have b100: "100 * q100 \<le> y - 1901" "y - 1901 - 99 \<le> 100 * q100"
    unfolding q100_def using div_bounds [of 100 "y - 1901"] by simp_all
  have b400: "400 * q400 \<le> y - 1601" "y - 1601 - 399 \<le> 400 * q400"
    unfolding q400_def using div_bounds [of 400 "y - 1601"] by simp_all
  have "400 * DayFromYear y = 146000 * y - 287620000 + 400 * q4 - 400 * q100 + 400 * q400"
    by (simp add: DayFromYear_def q4_def q100_def q400_def)
  with b4 b100 b400 have "146097 * y - 287811596 \<le> 400 * DayFromYear y"
    and "400 * DayFromYear y \<le> 146097 * y - 287810501"
    by linarith+
  then show ?thesis
    by simp
qed

lemma YearFromDay_bounds:
  "DayFromYear (YearFromDay d) \<le> d \<and> d < DayFromYear (YearFromDay d + 1)"
proof -
  define y0 where "y0 = 1970 + (400 * d) div 146097"
  have bx: "146097 * y0 - 287811090 \<le> 400 * d" "400 * d - 146096 \<le> 146097 * y0 - 287811090"
    unfolding y0_def using div_bounds [of 146097 "400 * d"] by simp_all
  have "400 * DayFromYear (y0 - 1) \<le> 146097 * y0 - 287956598"
    using DayFromYear_bounds [of "y0 - 1", THEN conjunct2] by simp
  with bx have lo: "DayFromYear (y0 - 1) \<le> d"
    by linarith
  have "146097 * y0 - 287519402 \<le> 400 * DayFromYear (y0 + 1 + 1)"
    using DayFromYear_bounds [of "y0 + 1 + 1", THEN conjunct1] by simp
  with bx have hi: "d < DayFromYear (y0 + 1 + 1)"
    by linarith
  have def: "YearFromDay d =
      (if DayFromYear (y0 + 1) \<le> d then y0 + 1 else if DayFromYear y0 \<le> d then y0 else y0 - 1)"
    by (simp add: YearFromDay_def y0_def Let_def)
  consider "DayFromYear (y0 + 1) \<le> d"
    | "\<not> DayFromYear (y0 + 1) \<le> d" "DayFromYear y0 \<le> d"
    | "\<not> DayFromYear (y0 + 1) \<le> d" "\<not> DayFromYear y0 \<le> d"
    by blast
  then show ?thesis
  proof cases
    case 1
    with hi show ?thesis
      by (simp add: def)
  next
    case 2
    then show ?thesis
      by (simp add: def)
  next
    case 3
    with lo show ?thesis
      by (simp add: def)
  qed
qed

lemma DayFromYear_mono:
  assumes "y < y'"
  shows "DayFromYear y < DayFromYear y'"
proof -
  have "400 * DayFromYear y \<le> 146097 * y - 287810501"
    using DayFromYear_bounds [of y, THEN conjunct2] by simp
  moreover have "146097 * y' - 287811596 \<le> 400 * DayFromYear y'"
    using DayFromYear_bounds [of y', THEN conjunct1] by simp
  ultimately show ?thesis
    using assms by linarith
qed

lemma YearFromDay_largest:
  assumes "DayFromYear y \<le> d"
  shows "y \<le> YearFromDay d"
proof (rule ccontr)
  assume "\<not> y \<le> YearFromDay d"
  then have "YearFromDay d + 1 \<le> y"
    by simp
  then have "DayFromYear (YearFromDay d + 1) \<le> DayFromYear y"
    using DayFromYear_mono [of "YearFromDay d + 1" y] by (cases "YearFromDay d + 1 = y") auto
  with assms YearFromDay_bounds [of d] show False
    by linarith
qed

section \<open>Calendar-day arithmetic\<close>
























section \<open>Card matching\<close>

lemma includes_str_sublist: "includes_str str s \<longleftrightarrow> sublist s str"
  by (induction str) (simp_all add: sublist_Cons_right)

lemma cardMatches_sublist:
  "cardMatches text criteria \<longleftrightarrow> (\<forall>s \<in> set criteria. sublist s text)"
  by (simp add: cardMatches_def list_all_iff includes_str_sublist)

text \<open>
  Claim C9. \<open>cardMatches\<close> is true exactly when every string of the criteria occurs
  in the card text as a substring; so it is false when one is missing and true of the
  empty criteria, and two criteria lists with the same members give the same answer,
  whatever their order.
\<close>

theorem cardMatches_iff:
  "(cardMatches text criteria \<longleftrightarrow> (\<forall>s \<in> set criteria. \<exists>ps ss. text = ps @ s @ ss))
   \<and> ((\<exists>s \<in> set criteria. \<not> (\<exists>ps ss. text = ps @ s @ ss)) \<longrightarrow> \<not> cardMatches text criteria)
   \<and> cardMatches text []
   \<and> (set criteria = set criteria' \<longrightarrow> cardMatches text criteria = cardMatches text criteria')"
  by (simp add: cardMatches_sublist sublist_def)

theorem cardMatches_iff_witness:
  "cardMatches ''8:00 PM Pickleball Open Play'' [''8:00'', ''Pickleball'']
   \<and> (\<exists>ps ss. ''8:00 PM Pickleball Open Play'' = ps @ ''8:00'' @ ss)
   \<and> (\<exists>ps ss. ''8:00 PM Pickleball Open Play'' = ps @ ''Pickleball'' @ ss)
   \<and> \<not> cardMatches ''8:00 PM Pickleball Open Play'' [''8:00'', ''Yoga'']
   \<and> \<not> (\<exists>ps ss. ''8:00 PM Pickleball Open Play'' = ps @ ''Yoga'' @ ss)
   \<and> cardMatches ''8:00 PM Pickleball Open Play'' [''Pickleball'', ''8:00'']"
proof -
  have yes: "cardMatches ''8:00 PM Pickleball Open Play'' [''8:00'', ''Pickleball'']"
    by (simp add: cardMatches_def)
  have no: "\<not> cardMatches ''8:00 PM Pickleball Open Play'' [''8:00'', ''Yoga'']"
    by (simp add: cardMatches_def)
  have sw: "set [''8:00'', ''Pickleball''] = set [''Pickleball'', ''8:00'']"
    by auto
  from yes cardMatches_iff [of "''8:00 PM Pickleball Open Play''" "[''8:00'', ''Pickleball'']"
      "[''Pickleball'', ''8:00'']"] sw
  have a: "\<forall>s \<in> set [''8:00'', ''Pickleball'']. \<exists>ps ss. ''8:00 PM Pickleball Open Play'' = ps @ s @ ss"
    and c: "cardMatches ''8:00 PM Pickleball Open Play'' [''Pickleball'', ''8:00'']"
    by blast+
  from no cardMatches_iff [of "''8:00 PM Pickleball Open Play''" "[''8:00'', ''Yoga'']" "[]"]
  have "\<exists>s \<in> set [''8:00'', ''Yoga'']. \<not> (\<exists>ps ss. ''8:00 PM Pickleball Open Play'' = ps @ s @ ss)"
    by blast
  with a have b: "\<not> (\<exists>ps ss. ''8:00 PM Pickleball Open Play'' = ps @ ''Yoga'' @ ss)"
    by auto
  from yes a no b c show ?thesis
    by simp
qed

section \<open>The schedule URL\<close>

text \<open>Serialising and parsing are inverse: every byte comes back, and no encoded half holds a separator.\<close>

lemma hexValue_hexDigit: "n < 16 \<Longrightarrow> hexValue (hexDigit n) = Some n"
  by (simp add: hexValue_def hexDigit_def Let_def)

lemma hexDigit_plain:
  assumes "n < 16"
  shows "hexDigit n \<noteq> CHR ''&'' \<and> hexDigit n \<noteq> CHR ''=''"
proof -
  have v: "(of_char (hexDigit n) :: nat) = (if n < 10 then 48 + n else 55 + n)"
    using assms by (simp add: hexDigit_def)
  have "hexDigit n = CHR ''&'' \<Longrightarrow> (of_char (hexDigit n) :: nat) = 38"
    and "hexDigit n = CHR ''='' \<Longrightarrow> (of_char (hexDigit n) :: nat) = 61"
    by simp_all
  with v assms show ?thesis
    by (auto split: if_splits)
qed

lemma keep_plain:
  "urlencodedKeep c \<Longrightarrow> c \<noteq> CHR ''&'' \<and> c \<noteq> CHR ''='' \<and> c \<noteq> CHR ''+'' \<and> c \<noteq> CHR ''%''"
  by (auto simp add: urlencodedKeep_def Let_def)

lemma urlencodeByte_plain: "CHR ''&'' \<notin> set (urlencodeByte c) \<and> CHR ''='' \<notin> set (urlencodeByte c)"
proof -
  have "(of_char c :: nat) div 16 < 16" "(of_char c :: nat) mod 16 < 16"
    using nat_of_char_less_256 [of c] by (arith+)
  then show ?thesis
    using keep_plain [of c] hexDigit_plain [of "(of_char c :: nat) div 16"]
      hexDigit_plain [of "(of_char c :: nat) mod 16"]
    by (auto simp add: urlencodeByte_def)
qed

lemma urlencode_plain: "CHR ''&'' \<notin> set (urlencode str) \<and> CHR ''='' \<notin> set (urlencode str)"
  by (induction str) (simp_all add: urlencode_def urlencodeByte_plain)

lemma urldecode_plain:
  "c \<noteq> CHR ''+'' \<Longrightarrow> c \<noteq> CHR ''%'' \<Longrightarrow> urldecode (c # xs) = c # urldecode xs"
  by (cases "(c # xs)" rule: urldecode.cases) auto

lemma urldecode_plus: "urldecode (CHR ''+'' # xs) = CHR '' '' # urldecode xs"
  by (cases "(CHR ''+'' # xs)" rule: urldecode.cases) auto

lemma urldecode_percent:
  assumes "hexValue a = Some h" "hexValue b = Some l"
  shows "urldecode (CHR ''%'' # a # b # xs) = char_of (16 * h + l) # urldecode xs"
  using assms by simp

lemma urldecode_urlencodeByte: "urldecode (urlencodeByte c @ xs) = c # urldecode xs"
proof -
  let ?n = "of_char c :: nat"
  have lt: "?n div 16 < 16" "?n mod 16 < 16"
    using nat_of_char_less_256 [of c] by (arith+)
  have recode: "char_of (16 * (?n div 16) + ?n mod 16) = c"
    by simp
  show ?thesis
  proof (cases "urlencodedKeep c")
    case True
    then show ?thesis
      using keep_plain [of c] by (simp add: urlencodeByte_def urldecode_plain)
  next
    case False
    show ?thesis
    proof (cases "c = CHR '' ''")
      case True
      then show ?thesis
        using False by (simp add: urlencodeByte_def urldecode_plus)
    next
      case sp: False
      have "urlencodeByte c @ xs = CHR ''%'' # hexDigit (?n div 16) # hexDigit (?n mod 16) # xs"
        using False sp by (simp add: urlencodeByte_def)
      then show ?thesis
        using urldecode_percent [OF hexValue_hexDigit [OF lt(1)] hexValue_hexDigit [OF lt(2)], of xs] recode
        by simp
    qed
  qed
qed

lemma urldecode_urlencode: "urldecode (urlencode str) = str"
  by (induction str) (simp_all add: urlencode_def urldecode_urlencodeByte)

lemma takeWhile_until: "c \<notin> set a \<Longrightarrow> takeWhile (\<lambda>x. x \<noteq> c) (a @ c # b) = a"
  by (induction a) auto

lemma dropWhile_until: "c \<notin> set a \<Longrightarrow> dropWhile (\<lambda>x. x \<noteq> c) (a @ c # b) = c # b"
  by (induction a) auto

lemma parsePair_encoded: "parsePair (urlencode k @ CHR ''='' # urlencode v) = (k, v)"
proof -
  have "CHR ''='' \<notin> set (urlencode k)"
    by (simp add: urlencode_plain)
  then have "takeWhile (\<lambda>c. c \<noteq> CHR ''='') (urlencode k @ CHR ''='' # urlencode v) = urlencode k"
    and "dropWhile (\<lambda>c. c \<noteq> CHR ''='') (urlencode k @ CHR ''='' # urlencode v) = CHR ''='' # urlencode v"
    by (simp_all add: takeWhile_until dropWhile_until)
  then show ?thesis
    by (simp add: parsePair_def urldecode_urlencode)
qed

lemma splitOn_nonempty: "splitOn c xs \<noteq> []"
  by (induction xs) (auto split: list.splits)

lemma splitOn_none: "c \<notin> set a \<Longrightarrow> splitOn c a = [a]"
  by (induction a) (auto split: list.splits)

lemma splitOn_first: "c \<notin> set a \<Longrightarrow> splitOn c (a @ c # rest) = a # splitOn c rest"
  by (induction a) (auto split: list.splits simp add: splitOn_nonempty)

lemma split_join:
  assumes "\<forall>p \<in> set pieces. CHR ''&'' \<notin> set p \<and> p \<noteq> []"
  shows "filter (\<lambda>p. p \<noteq> []) (splitOn (CHR ''&'') (joinWith (CHR ''&'') pieces)) = pieces"
  using assms
proof (induction "CHR ''&''" pieces rule: joinWith.induct)
  case 1
  then show ?case by simp
next
  case (2 x)
  then show ?case by (simp add: splitOn_none)
next
  case (3 x y ys)
  then show ?case by (simp add: splitOn_first)
qed

lemma parseQuery_paramsToString: "parseQuery (paramsToString ps) = ps"
proof -
  let ?enc = "\<lambda>(k, v). urlencode k @ CHR ''='' # urlencode v"
  have "\<forall>p \<in> set (map ?enc ps). CHR ''&'' \<notin> set p \<and> p \<noteq> []"
    by (auto simp add: urlencode_plain)
  then have "filter (\<lambda>p. p \<noteq> []) (splitOn (CHR ''&'') (paramsToString ps)) = map ?enc ps"
    unfolding paramsToString_def by (rule split_join)
  moreover have "map parsePair (map ?enc ps) = ps"
    by (induction ps) (auto simp add: parsePair_encoded)
  ultimately show ?thesis
    by (simp add: parseQuery_def)
qed

lemma buildScheduleUrl_params:
  assumes "selectedDate opts = Some sd" "sd \<noteq> []"
  shows "buildScheduleUrl opts =
           Inr (orDefault (clubPath opts) ''https://my.lifetime.life/clubs/va/fairfax/classes.html''
                @ ''?''
                @ paramsToString
                    ((if orDefault (teamMemberView opts) True then [(''teamMemberView'', ''true'')] else [])
                     @ [(''mode'', orDefault (mode opts) ''week''),
                        (''selectedDate'', sd),
                        (''interest'', orDefault (interest opts) ''Pickleball Open Play''),
                        (''location'', orDefault (location opts) ''Fairfax'')]))"
  using assms by (simp add: buildScheduleUrl_def truthyString_def Let_def orDefault_def)

text \<open>
  Claim C10. \<open>buildScheduleUrl\<close> throws exactly when \<open>selectedDate\<close> is falsy
  (absent or empty). Given a \<open>selectedDate\<close>, it returns the club path, a question
  mark and a query string which the receiving side reads back as the pairs for
  \<open>mode\<close>, \<open>selectedDate\<close>, \<open>interest\<close> and \<open>location\<close>, in that order, with
  every value intact; the pair \<open>teamMemberView=true\<close> comes first when the
  \<open>teamMemberView\<close> option is truthy, and no pair of that name is there otherwise.
\<close>

theorem buildScheduleUrl_spec:
  "(buildScheduleUrl opts = Inl SelectedDateRequired \<longleftrightarrow> \<not> truthyString (selectedDate opts))
   \<and> (\<forall>sd. selectedDate opts = Some sd \<and> sd \<noteq> [] \<longrightarrow>
        (\<exists>q. buildScheduleUrl opts =
                Inr (orDefault (clubPath opts) ''https://my.lifetime.life/clubs/va/fairfax/classes.html''
                     @ ''?'' @ q)
            \<and> parseQuery q =
                (if orDefault (teamMemberView opts) True then [(''teamMemberView'', ''true'')] else [])
                @ [(''mode'', orDefault (mode opts) ''week''),
                   (''selectedDate'', sd),
                   (''interest'', orDefault (interest opts) ''Pickleball Open Play''),
                   (''location'', orDefault (location opts) ''Fairfax'')]
            \<and> ((''teamMemberView'', ''true'') \<in> set (parseQuery q)
                 \<longleftrightarrow> orDefault (teamMemberView opts) True)
            \<and> (map_of (parseQuery q) ''teamMemberView'' =
                 (if orDefault (teamMemberView opts) True then Some ''true'' else None))))"
proof -
  have throws: "buildScheduleUrl opts = Inl SelectedDateRequired \<longleftrightarrow> \<not> truthyString (selectedDate opts)"
    by (simp add: buildScheduleUrl_def Let_def)
  have builds: "\<exists>q. buildScheduleUrl opts =
                Inr (orDefault (clubPath opts) ''https://my.lifetime.life/clubs/va/fairfax/classes.html''
                     @ ''?'' @ q)
            \<and> parseQuery q =
                (if orDefault (teamMemberView opts) True then [(''teamMemberView'', ''true'')] else [])
                @ [(''mode'', orDefault (mode opts) ''week''),
                   (''selectedDate'', sd),
                   (''interest'', orDefault (interest opts) ''Pickleball Open Play''),
                   (''location'', orDefault (location opts) ''Fairfax'')]
            \<and> ((''teamMemberView'', ''true'') \<in> set (parseQuery q)
                 \<longleftrightarrow> orDefault (teamMemberView opts) True)
            \<and> (map_of (parseQuery q) ''teamMemberView'' =
                 (if orDefault (teamMemberView opts) True then Some ''true'' else None))"
    if "selectedDate opts = Some sd" "sd \<noteq> []" for sd
    using buildScheduleUrl_params [OF that]
    by (intro exI [of _ "paramsToString
                    ((if orDefault (teamMemberView opts) True then [(''teamMemberView'', ''true'')] else [])
                     @ [(''mode'', orDefault (mode opts) ''week''),
                        (''selectedDate'', sd),
                        (''interest'', orDefault (interest opts) ''Pickleball Open Play''),
                        (''location'', orDefault (location opts) ''Fairfax'')])"])
       (simp add: parseQuery_paramsToString)
  from throws builds show ?thesis
    by blast
qed

text \<open>The URL of the example run, and an empty date.\<close>

theorem buildScheduleUrl_spec_witness:
  "selectedDate exampleOptions = Some ''2026-03-02''
   \<and> buildScheduleUrl exampleOptions =
       Inr ''https://my.lifetime.life/clubs/va/fairfax/classes.html?teamMemberView=true&mode=week&selectedDate=2026-03-02&interest=Pickleball+Open+Play&location=Fairfax''
   \<and> parseQuery ''teamMemberView=true&mode=week&selectedDate=2026-03-02&interest=Pickleball+Open+Play&location=Fairfax''
       = [(''teamMemberView'', ''true''), (''mode'', ''week''), (''selectedDate'', ''2026-03-02''),
          (''interest'', ''Pickleball Open Play''), (''location'', ''Fairfax'')]
   \<and> \<not> truthyString (selectedDate (exampleOptions\<lparr>selectedDate := Some ''''\<rparr>))
   \<and> buildScheduleUrl (exampleOptions\<lparr>selectedDate := Some ''''\<rparr>) = Inl SelectedDateRequired"
proof -
  have sd: "selectedDate exampleOptions = Some ''2026-03-02''"
    by (simp add: exampleOptions_def)
  have url: "buildScheduleUrl exampleOptions =
      Inr (''https://my.lifetime.life/clubs/va/fairfax/classes.html'' @ ''?''
           @ ''teamMemberView=true&mode=week&selectedDate=2026-03-02&interest=Pickleball+Open+Play&location=Fairfax'')"
    by code_simp
  from buildScheduleUrl_spec [of exampleOptions] sd obtain q
    where "buildScheduleUrl exampleOptions =
             Inr (''https://my.lifetime.life/clubs/va/fairfax/classes.html'' @ ''?'' @ q)"
      and parsed: "parseQuery q =
             [(''teamMemberView'', ''true''), (''mode'', ''week''), (''selectedDate'', ''2026-03-02''),
              (''interest'', ''Pickleball Open Play''), (''location'', ''Fairfax'')]"
    by (auto simp add: exampleOptions_def orDefault_def)
  with url have "q = ''teamMemberView=true&mode=week&selectedDate=2026-03-02&interest=Pickleball+Open+Play&location=Fairfax''"
    by (simp only: sum.inject same_append_eq)
  with parsed have readback: "parseQuery ''teamMemberView=true&mode=week&selectedDate=2026-03-02&interest=Pickleball+Open+Play&location=Fairfax''
       = [(''teamMemberView'', ''true''), (''mode'', ''week''), (''selectedDate'', ''2026-03-02''),
          (''interest'', ''Pickleball Open Play''), (''location'', ''Fairfax'')]"
    by simp
  have falsy: "\<not> truthyString (selectedDate (exampleOptions\<lparr>selectedDate := Some ''''\<rparr>))"
    by (simp add: truthyString_def)
  with buildScheduleUrl_spec [of "exampleOptions\<lparr>selectedDate := Some ''''\<rparr>"]
  have thrown: "buildScheduleUrl (exampleOptions\<lparr>selectedDate := Some ''''\<rparr>) = Inl SelectedDateRequired"
    by blast
  from sd url readback falsy thrown show ?thesis
    by simp
qed

section \<open>The exit code of a run\<close>

text \<open>
  Once a run has reached \<open>clickReserveAndFinish\<close>, its exit code is decided by how
  that call ends: a normal return is followed by the pause and the closing of the
  browser and, if neither rejects, by exit code 0; an error is rethrown after the
  browser is closed, caught at the top level and turned into exit code 1.
\<close>

lemma finallyClose_error: "fst (finallyClose s (Inl e, w)) \<noteq> Inr ()"
  by (simp add: finallyClose_def call_def)

lemma exitCodeOf_error: "fst r \<noteq> Inr () \<Longrightarrow> fst (exitCodeOf r) = 1"
  by (cases r; cases "fst r") (auto simp add: exitCodeOf_def)

lemma main_after_reach:
  assumes "reachesAttempt cfg s w0 = Some w"
  shows "main cfg s w0 =
           (case clickReserveAndFinish cfg s w of
              None \<Rightarrow> None
            | Some (Inl e, w') \<Rightarrow> Some (exitCodeOf (finallyClose s (Inl e, w')))
            | Some (Inr x, w') \<Rightarrow> Some (exitCodeOf (finallyClose s (afterAttempt s w'))))"
proof -
  obtain classDate openAt where sw: "sessionWindow cfg w0 = (classDate, openAt)"
    by (cases "sessionWindow cfg w0")
  from assms sw obtain scheduleUrl w3
    where creds: "truthyString (EMAIL cfg)" "truthyString (PASSWORD cfg)"
      and url: "scheduleUrlOf cfg classDate = Inr scheduleUrl"
      and launched: "launchBrowser s (waitUntilReady cfg s (readyAtOf cfg openAt) (announce w0))
                       = (Inr (), w3)"
      and arrived: "beforeAttempt cfg s scheduleUrl openAt w3 = (Inr (), w)"
    by (auto simp add: reachesAttempt_def split: prod.splits sum.splits if_splits)
  show ?thesis
  proof (cases "clickReserveAndFinish cfg s w")
    case None
    then show ?thesis
      by (simp add: main_def run_def tryBlock_def sw creds url launched arrived)
  next
    case (Some r)
    then show ?thesis
      by (cases r; cases "fst r")
         (simp_all add: main_def run_def tryBlock_def sw creds url launched arrived)
  qed
qed

lemma exit_after_return:
  assumes "reachesAttempt cfg s w0 = Some w"
    and "clickReserveAndFinish cfg s w = Some (Inr (), w')"
    and "closesCleanly s (now w')"
  shows "main cfg s w0 =
           Some (0, settle s Close (settle s (WaitForTimeout 1000) (consoleLog ''Done.'' w')))"
  using assms(2,3)
  by (simp add: main_after_reach [OF assms(1)] afterAttempt_def finallyClose_def call_def
      closesCleanly_def exitCodeOf_def consoleLog_def settle_def)

lemma exit_after_throw:
  assumes "reachesAttempt cfg s w0 = Some w"
    and "clickReserveAndFinish cfg s w = Some (Inl e, w')"
  shows "exitCode cfg s w0 = Some 1"
  using assms(2) finallyClose_error [of s e w']
  by (simp add: exitCode_def main_after_reach [OF assms(1)] exitCodeOf_error)

section \<open>The polling loop\<close>

lemma pollOnce_waitlisted:
  assumes "pollAnswers s w = (False, True)"
  shows "pollOnce cfg s w =
           Inl (Inr (), consoleLog ''Class is waitlisted. Stopping retries.''
                          (settle s (IsVisible WaitlistBtn) (settle s (IsVisible ReserveBtn) w)))"
  using assms by (simp add: pollAnswers_def pollOnce_def isVisible_def settle_def)

lemma pollOnce_quiet:
  assumes "pollAnswers s w = (False, False)"
  shows "pollOnce cfg s w = Inr (nextPass cfg s w)"
  using assms by (simp add: pollAnswers_def pollOnce_def isVisible_def settle_def nextPass_def)

lemma nextPass_advances: "now w + RESERVE_RETRY_MS cfg \<le> now (nextPass cfg s w)"
  by (simp add: nextPass_def settle_def sleep_def)

lemma pollReserve_quiet:
  assumes retry: "0 < RESERVE_RETRY_MS cfg"
    and quiet: "\<And>t. start \<le> t \<Longrightarrow> t < start + RESERVE_MAX_WAIT_MS cfg \<Longrightarrow>
                 \<not> visibleAt s ReserveBtn t
                 \<and> \<not> visibleAt s WaitlistBtn (t + int (latency s (IsVisible ReserveBtn) t))"
    and started: "start \<le> now w"
  shows "\<exists>w'. pollReserve cfg s start w = Some (Inl ReserveTimedOut, w')
             \<and> start + RESERVE_MAX_WAIT_MS cfg \<le> now w'"
  using started
proof (induction "nat (start + RESERVE_MAX_WAIT_MS cfg - now w)" arbitrary: w rule: less_induct)
  case less
  show ?case
  proof (cases "now w - start < RESERVE_MAX_WAIT_MS cfg")
    case False
    then have "pollReserve cfg s start w = Some (Inl ReserveTimedOut, w)"
      by (subst pollReserve.simps) simp
    with False show ?thesis
      by auto
  next
    case True
    have "pollAnswers s w = (False, False)"
      using quiet [of "now w"] less.prems True by (simp add: pollAnswers_def)
    then have once: "pollOnce cfg s w = Inr (nextPass cfg s w)"
      by (rule pollOnce_quiet)
    have adv: "now w + RESERVE_RETRY_MS cfg \<le> now (nextPass cfg s w)"
      by (rule nextPass_advances)
    have "nat (start + RESERVE_MAX_WAIT_MS cfg - now (nextPass cfg s w))
        < nat (start + RESERVE_MAX_WAIT_MS cfg - now w)"
      using adv retry True by linarith
    moreover have "start \<le> now (nextPass cfg s w)"
      using adv retry less.prems by linarith
    ultimately obtain w' where "pollReserve cfg s start (nextPass cfg s w) = Some (Inl ReserveTimedOut, w')"
      and "start + RESERVE_MAX_WAIT_MS cfg \<le> now w'"
      using less.hyps by blast
    moreover have "pollReserve cfg s start w = pollReserve cfg s start (nextPass cfg s w)"
      using True once by (subst pollReserve.simps) simp
    ultimately show ?thesis
      by auto
  qed
qed

lemma pollReserve_waitlisted:
  assumes "\<And>k. k < n \<Longrightarrow> now (passes cfg s k w) - start < RESERVE_MAX_WAIT_MS cfg
                         \<and> pollAnswers s (passes cfg s k w) = (False, False)"
    and "now (passes cfg s n w) - start < RESERVE_MAX_WAIT_MS cfg"
    and "pollAnswers s (passes cfg s n w) = (False, True)"
  shows "pollReserve cfg s start w =
           Some (Inr (), consoleLog ''Class is waitlisted. Stopping retries.''
                   (settle s (IsVisible WaitlistBtn)
                     (settle s (IsVisible ReserveBtn) (passes cfg s n w))))"
  using assms
proof (induction n arbitrary: w)
  case 0
  then show ?case
    by (subst pollReserve.simps) (simp add: pollOnce_waitlisted)
next
  case (Suc n)
  have first: "now w - start < RESERVE_MAX_WAIT_MS cfg" "pollAnswers s w = (False, False)"
    using Suc.prems(1) [of 0] by simp_all
  have step: "pollReserve cfg s start w = pollReserve cfg s start (nextPass cfg s w)"
    using first by (subst pollReserve.simps) (simp add: pollOnce_quiet)
  have "pollReserve cfg s start (nextPass cfg s w) =
          Some (Inr (), consoleLog ''Class is waitlisted. Stopping retries.''
                  (settle s (IsVisible WaitlistBtn)
                    (settle s (IsVisible ReserveBtn) (passes cfg s n (nextPass cfg s w)))))"
  proof (rule Suc.IH)
    fix k assume "k < n"
    then show "now (passes cfg s k (nextPass cfg s w)) - start < RESERVE_MAX_WAIT_MS cfg
        \<and> pollAnswers s (passes cfg s k (nextPass cfg s w)) = (False, False)"
      using Suc.prems(1) [of "Suc k"] by simp
  next
    show "now (passes cfg s n (nextPass cfg s w)) - start < RESERVE_MAX_WAIT_MS cfg"
      using Suc.prems(2) by simp
    show "pollAnswers s (passes cfg s n (nextPass cfg s w)) = (False, True)"
      using Suc.prems(3) by simp
  qed
  with step show ?case
    by simp
qed

section \<open>The worked run, evaluated\<close>

lemma example_window:
  "sessionWindow exampleConfig sundayMorning = (Date 1772445600000, Date 1771790400000)"
  by code_simp

lemma example_url:
  "scheduleUrlOf exampleConfig (Date 1772445600000) =
     Inr ''https://my.lifetime.life/clubs/va/fairfax/classes.html?teamMemberView=true&mode=week&selectedDate=2026-03-02&interest=Pickleball+Open+Play&location=Fairfax''"
  by code_simp

lemma example_credentials:
  "truthyString (EMAIL exampleConfig) \<and> truthyString (PASSWORD exampleConfig)"
  by (simp add: exampleConfig_def truthyString_def)

lemma example_reaches:
  "reachesAttempt exampleConfig (exampleSurface vis) sundayMorning = Some detailsPage"
proof -
  have "(case launchBrowser (exampleSurface vis)
                (waitUntilReady exampleConfig (exampleSurface vis)
                   (readyAtOf exampleConfig (Date 1771790400000)) (announce sundayMorning)) of
           (Inl e, w3) \<Rightarrow> None
         | (Inr x, w3) \<Rightarrow>
             (case beforeAttempt exampleConfig (exampleSurface vis)
                ''https://my.lifetime.life/clubs/va/fairfax/classes.html?teamMemberView=true&mode=week&selectedDate=2026-03-02&interest=Pickleball+Open+Play&location=Fairfax''
                (Date 1771790400000) w3 of
                (Inl e, w4) \<Rightarrow> None
              | (Inr x, w4) \<Rightarrow> Some w4)) = Some detailsPage"
    by (simp add: announce_def waitUntilReady_def readyAtOf_def launchBrowser_def beforeAttempt_def
        login_def openSchedulePage_def dismissCookieBanner_def selectCard_def enterDetails_def
        waitUntilOpen_def busyWait_def msUntilDateTime_def getTime_def sleep_def consoleLog_def
        andThen_def call_def callBoth_def count_def innerText_def settle_def
        exampleSurface_def exampleConfig_def sundayMorning_def detailsPage_def orDefault_def
        cardMatches_def upt_rec Let_def)
  then show ?thesis
    unfolding reachesAttempt_def example_window prod.case
    by (simp add: example_url example_credentials)
qed

lemma example_probe_latency: "latency (exampleSurface vis) (IsVisible l) t = 50"
  by (simp add: exampleSurface_def)

lemma example_visibleAt: "visibleAt (exampleSurface vis) l t = vis l t"
  by (simp add: visibleAt_def exampleSurface_def)

lemma example_closesCleanly: "closesCleanly (exampleSurface vis) t"
  by (simp add: closesCleanly_def exampleSurface_def)

lemma example_passes:
  "now (passes exampleConfig (exampleSurface vis) 0 detailsPage) = 1771790400000"
  "now (passes exampleConfig (exampleSurface vis) (Suc 0) detailsPage) = 1771790400503"
  "now (passes exampleConfig (exampleSurface vis) (Suc (Suc 0)) detailsPage) = 1771790401006"
  by (simp_all add: nextPass_def settle_def sleep_def exampleSurface_def exampleConfig_def
      detailsPage_def)

lemma example_waitlisted_return:
  "pollAnswers (exampleSurface waitlisted) detailsPage = (False, True)
   \<and> clickReserveAndFinish exampleConfig (exampleSurface waitlisted) detailsPage =
        Some (Inr (), consoleLog ''Class is waitlisted. Stopping retries.''
                        (settle (exampleSurface waitlisted) (IsVisible WaitlistBtn)
                          (settle (exampleSurface waitlisted) (IsVisible ReserveBtn) detailsPage)))"
proof -
  let ?S = "exampleSurface waitlisted"
  have seen: "pollAnswers ?S (passes exampleConfig ?S 0 detailsPage) = (False, True)"
    by (simp add: pollAnswers_def example_visibleAt waitlisted_def)
  have budget: "now (passes exampleConfig ?S 0 detailsPage) - now detailsPage
                  < RESERVE_MAX_WAIT_MS exampleConfig"
    by (simp add: exampleConfig_def)
  have "pollReserve exampleConfig ?S (now detailsPage) detailsPage =
      Some (Inr (), consoleLog ''Class is waitlisted. Stopping retries.''
              (settle ?S (IsVisible WaitlistBtn)
                (settle ?S (IsVisible ReserveBtn) (passes exampleConfig ?S 0 detailsPage))))"
    using budget seen by (intro pollReserve_waitlisted) simp_all
  with seen show ?thesis
    by (simp add: clickReserveAndFinish_def)
qed

lemma example_waitlisted_run:
  "main exampleConfig (exampleSurface waitlisted) sundayMorning =
     Some (0, settle (exampleSurface waitlisted) Close
                (settle (exampleSurface waitlisted) (WaitForTimeout 1000)
                  (consoleLog ''Done.''
                    (consoleLog ''Class is waitlisted. Stopping retries.''
                      (settle (exampleSurface waitlisted) (IsVisible WaitlistBtn)
                        (settle (exampleSurface waitlisted) (IsVisible ReserveBtn) detailsPage))))))"
  using exit_after_return [OF example_reaches example_waitlisted_return [THEN conjunct2]
      example_closesCleanly]
  by simp

section \<open>Outcomes of the attempt\<close>

text \<open>
  Claim C1, as amended. Let a run reach \<open>clickReserveAndFinish\<close> in world \<open>w\<close>. If
  \<open>n\<close> passes of the polling loop see neither control, each starting within the retry
  budget, and the next pass, still within the budget, sees no reserve control but the
  waitlist indicator, then \<open>clickReserveAndFinish\<close> returns normally, having printed
  that the class is waitlisted; and if the closing steps (the one-second pause and
  closing the browser) do not reject, the exit code of the process is 0.
\<close>

theorem waitlisted_exit_code:
  assumes reach: "reachesAttempt cfg s w0 = Some w"
    and before: "\<forall>k<n. now (passes cfg s k w) - now w < RESERVE_MAX_WAIT_MS cfg
                      \<and> pollAnswers s (passes cfg s k w) = (False, False)"
    and budget: "now (passes cfg s n w) - now w < RESERVE_MAX_WAIT_MS cfg"
    and seen: "pollAnswers s (passes cfg s n w) = (False, True)"
    and returned: "w' = consoleLog ''Class is waitlisted. Stopping retries.''
                          (settle s (IsVisible WaitlistBtn)
                            (settle s (IsVisible ReserveBtn) (passes cfg s n w)))"
    and tidy: "closesCleanly s (now w')"
  shows "clickReserveAndFinish cfg s w = Some (Inr (), w') \<and> exitCode cfg s w0 = Some 0"
proof -
  have ret: "clickReserveAndFinish cfg s w = Some (Inr (), w')"
    unfolding clickReserveAndFinish_def returned
    using before budget seen by (intro pollReserve_waitlisted) simp_all
  from exit_after_return [OF reach ret tidy] have "exitCode cfg s w0 = Some 0"
    by (simp add: exitCode_def)
  with ret show ?thesis
    by simp
qed

text \<open>The waitlist indicator appears one second after opening and is seen on the third pass.\<close>

theorem waitlisted_exit_code_witness:
  "reachesAttempt exampleConfig (exampleSurface waitlistedLater) sundayMorning = Some detailsPage
   \<and> pollAnswers (exampleSurface waitlistedLater)
        (passes exampleConfig (exampleSurface waitlistedLater) 0 detailsPage) = (False, False)
   \<and> now (passes exampleConfig (exampleSurface waitlistedLater) 1 detailsPage) = 1771790400503
   \<and> pollAnswers (exampleSurface waitlistedLater)
        (passes exampleConfig (exampleSurface waitlistedLater) 1 detailsPage) = (False, False)
   \<and> now (passes exampleConfig (exampleSurface waitlistedLater) 2 detailsPage) = 1771790401006
   \<and> pollAnswers (exampleSurface waitlistedLater)
        (passes exampleConfig (exampleSurface waitlistedLater) 2 detailsPage) = (False, True)
   \<and> clickReserveAndFinish exampleConfig (exampleSurface waitlistedLater) detailsPage =
        Some (Inr (), consoleLog ''Class is waitlisted. Stopping retries.''
                        (settle (exampleSurface waitlistedLater) (IsVisible WaitlistBtn)
                          (settle (exampleSurface waitlistedLater) (IsVisible ReserveBtn)
                            (passes exampleConfig (exampleSurface waitlistedLater) 2 detailsPage))))
   \<and> exitCode exampleConfig (exampleSurface waitlistedLater) sundayMorning = Some 0"
proof -
  let ?S = "exampleSurface waitlistedLater"
  have two: "(2::nat) = Suc (Suc 0)"
    by simp
  have start: "now detailsPage = 1771790400000" and max: "RESERVE_MAX_WAIT_MS exampleConfig = 300000"
    by (simp_all add: detailsPage_def exampleConfig_def)
  have before: "\<forall>k<2. now (passes exampleConfig ?S k detailsPage) - now detailsPage
                        < RESERVE_MAX_WAIT_MS exampleConfig
                     \<and> pollAnswers ?S (passes exampleConfig ?S k detailsPage) = (False, False)"
    unfolding two
    by (auto simp add: less_Suc_eq example_passes start max pollAnswers_def example_visibleAt
        example_probe_latency waitlistedLater_def simp del: passes.simps)
  have at: "now (passes exampleConfig ?S 2 detailsPage) = 1771790401006"
    unfolding two by (rule example_passes)
  have budget: "now (passes exampleConfig ?S 2 detailsPage) - now detailsPage
                  < RESERVE_MAX_WAIT_MS exampleConfig"
    by (simp add: at start max)
  have seen: "pollAnswers ?S (passes exampleConfig ?S 2 detailsPage) = (False, True)"
    by (simp add: pollAnswers_def at example_visibleAt example_probe_latency waitlistedLater_def)
  have first: "pollAnswers ?S (passes exampleConfig ?S 0 detailsPage) = (False, False)"
    using spec [OF before, of 0] by simp
  have second: "pollAnswers ?S (passes exampleConfig ?S 1 detailsPage) = (False, False)"
    using spec [OF before, of 1] by simp
  have at1: "now (passes exampleConfig ?S 1 detailsPage) = 1771790400503"
    using example_passes(2) [of waitlistedLater] by simp
  from waitlisted_exit_code [OF example_reaches before budget seen refl example_closesCleanly]
    example_reaches [of waitlistedLater] first at1 second at seen
  show ?thesis
    by simp
qed

text \<open>
  Claim C1 as first stated asks for a non-zero exit code after the Waitlisted outcome. In
  the example run with a class that is full from the start, the attempt ends in that
  outcome and the exit code is 0.
\<close>

theorem waitlisted_exit_counterexample:
  "reachesAttempt exampleConfig (exampleSurface waitlisted) sundayMorning = Some detailsPage
   \<and> pollAnswers (exampleSurface waitlisted) detailsPage = (False, True)
   \<and> clickReserveAndFinish exampleConfig (exampleSurface waitlisted) detailsPage =
        Some (Inr (), consoleLog ''Class is waitlisted. Stopping retries.''
                        (settle (exampleSurface waitlisted) (IsVisible WaitlistBtn)
                          (settle (exampleSurface waitlisted) (IsVisible ReserveBtn) detailsPage)))
   \<and> exitCode exampleConfig (exampleSurface waitlisted) sundayMorning = Some 0
   \<and> exitCode exampleConfig (exampleSurface waitlisted) sundayMorning \<noteq> Some 1"
proof -
  have "exitCode exampleConfig (exampleSurface waitlisted) sundayMorning = Some 0"
    by (simp add: exitCode_def example_waitlisted_run)
  with example_reaches [of waitlisted] example_waitlisted_return show ?thesis
    by simp
qed

text \<open>
  Claim C2. Let a run reach \<open>clickReserveAndFinish\<close> in world \<open>w\<close> with a positive
  retry budget. If on the first pass the reserve control is not visible and the waitlist
  indicator, probed at \<open>t1\<close> when the first probe has settled, is visible, then
  \<open>clickReserveAndFinish\<close> returns normally at \<open>t2\<close>, when the second probe has
  settled, having made the two probes and printed one line, and nothing else: no click,
  no sleep, no reload, no second pass. If the closing steps do not reject, the exit code
  of the process is 0.
\<close>

theorem waitlisted_on_first_poll:
  assumes reach: "reachesAttempt cfg s w0 = Some w"
    and budget: "0 < RESERVE_MAX_WAIT_MS cfg"
    and noReserve: "\<not> visibleAt s ReserveBtn (now w)"
    and t1: "t1 = now w + int (latency s (IsVisible ReserveBtn) (now w))"
    and waitlist: "visibleAt s WaitlistBtn t1"
    and t2: "t2 = t1 + int (latency s (IsVisible WaitlistBtn) t1)"
    and tidy: "closesCleanly s t2"
  shows "clickReserveAndFinish cfg s w =
           Some (Inr (), \<lparr>now = t2,
                          trace = trace w @ [Called (IsVisible ReserveBtn),
                                             Called (IsVisible WaitlistBtn),
                                             Logged ''Class is waitlisted. Stopping retries.'']\<rparr>)
         \<and> exitCode cfg s w0 = Some 0"
proof -
  define w' where "w' = consoleLog ''Class is waitlisted. Stopping retries.''
                          (settle s (IsVisible WaitlistBtn) (settle s (IsVisible ReserveBtn) w))"
  have shape: "w' = \<lparr>now = t2,
                     trace = trace w @ [Called (IsVisible ReserveBtn),
                                        Called (IsVisible WaitlistBtn),
                                        Logged ''Class is waitlisted. Stopping retries.'']\<rparr>"
    by (simp add: w'_def consoleLog_def settle_def t1 t2)
  have "pollAnswers s (passes cfg s 0 w) = (False, True)"
    using noReserve waitlist by (simp add: pollAnswers_def t1)
  moreover have "now (passes cfg s 0 w) - now w < RESERVE_MAX_WAIT_MS cfg"
    using budget by simp
  ultimately have "pollReserve cfg s (now w) w =
      Some (Inr (), consoleLog ''Class is waitlisted. Stopping retries.''
              (settle s (IsVisible WaitlistBtn)
                (settle s (IsVisible ReserveBtn) (passes cfg s 0 w))))"
    by (intro pollReserve_waitlisted) simp_all
  then have ret: "clickReserveAndFinish cfg s w = Some (Inr (), w')"
    by (simp add: clickReserveAndFinish_def w'_def)
  have "closesCleanly s (now w')"
    using tidy by (simp add: shape)
  from exit_after_return [OF reach ret this] have "exitCode cfg s w0 = Some 0"
    by (simp add: exitCode_def)
  with ret shape show ?thesis
    by simp
qed

theorem waitlisted_on_first_poll_witness:
  "reachesAttempt exampleConfig (exampleSurface waitlisted) sundayMorning = Some detailsPage
   \<and> 0 < RESERVE_MAX_WAIT_MS exampleConfig
   \<and> \<not> visibleAt (exampleSurface waitlisted) ReserveBtn (now detailsPage)
   \<and> visibleAt (exampleSurface waitlisted) WaitlistBtn 1771790400050
   \<and> closesCleanly (exampleSurface waitlisted) 1771790400100
   \<and> clickReserveAndFinish exampleConfig (exampleSurface waitlisted) detailsPage =
        Some (Inr (), \<lparr>now = 1771790400100,
                       trace = trace detailsPage @ [Called (IsVisible ReserveBtn),
                                                    Called (IsVisible WaitlistBtn),
                                                    Logged ''Class is waitlisted. Stopping retries.'']\<rparr>)
   \<and> exitCode exampleConfig (exampleSurface waitlisted) sundayMorning = Some 0"
proof -
  have budget: "0 < RESERVE_MAX_WAIT_MS exampleConfig"
    by (simp add: exampleConfig_def)
  have noReserve: "\<not> visibleAt (exampleSurface waitlisted) ReserveBtn (now detailsPage)"
    by (simp add: example_visibleAt waitlisted_def)
  have t1: "1771790400050 = now detailsPage
      + int (latency (exampleSurface waitlisted) (IsVisible ReserveBtn) (now detailsPage))"
    by (simp add: example_probe_latency detailsPage_def)
  have waitlist: "visibleAt (exampleSurface waitlisted) WaitlistBtn 1771790400050"
    by (simp add: example_visibleAt waitlisted_def)
  have t2: "1771790400100 = 1771790400050
      + int (latency (exampleSurface waitlisted) (IsVisible WaitlistBtn) 1771790400050)"
    by (simp add: example_probe_latency)
  have tidy: "closesCleanly (exampleSurface waitlisted) 1771790400100"
    by (rule example_closesCleanly)
  from waitlisted_on_first_poll [OF example_reaches budget noReserve t1 waitlist t2 tidy]
    example_reaches [of waitlisted] budget noReserve waitlist tidy
  show ?thesis
    by simp
qed

text \<open>
  Claim C8. Let a run reach \<open>clickReserveAndFinish\<close> in world \<open>w\<close>, with a positive
  retry interval. If no pass that starts within \<open>RESERVE_MAX_WAIT_MS\<close> of the start
  sees either control (the reserve control at the instant the pass starts, the waitlist
  indicator when the reserve probe has settled), then \<open>clickReserveAndFinish\<close> does
  return, and it returns the timeout error, at an instant not before the deadline; the
  exit code of the process is 1.
\<close>

theorem polling_times_out:
  assumes reach: "reachesAttempt cfg s w0 = Some w"
    and retry: "0 < RESERVE_RETRY_MS cfg"
    and quiet: "\<forall>t. now w \<le> t \<and> t < now w + RESERVE_MAX_WAIT_MS cfg
                  \<longrightarrow> \<not> visibleAt s ReserveBtn t
                      \<and> \<not> visibleAt s WaitlistBtn (t + int (latency s (IsVisible ReserveBtn) t))"
  shows "\<exists>w'. clickReserveAndFinish cfg s w = Some (Inl ReserveTimedOut, w')
            \<and> now w + RESERVE_MAX_WAIT_MS cfg \<le> now w'
            \<and> exitCode cfg s w0 = Some 1"
proof -
  from retry quiet obtain w' where ret: "pollReserve cfg s (now w) w = Some (Inl ReserveTimedOut, w')"
    and late: "now w + RESERVE_MAX_WAIT_MS cfg \<le> now w'"
    using pollReserve_quiet [of cfg "now w" s w] by auto
  from ret have "clickReserveAndFinish cfg s w = Some (Inl ReserveTimedOut, w')"
    by (simp add: clickReserveAndFinish_def)
  with late exit_after_throw [OF reach this] show ?thesis
    by blast
qed

text \<open>The details page of the example run stays blank.\<close>

theorem polling_times_out_witness:
  "reachesAttempt exampleConfig (exampleSurface blank) sundayMorning = Some detailsPage
   \<and> 0 < RESERVE_RETRY_MS exampleConfig
   \<and> (\<forall>t. \<not> visibleAt (exampleSurface blank) ReserveBtn t
          \<and> \<not> visibleAt (exampleSurface blank) WaitlistBtn t)
   \<and> (\<exists>w'. clickReserveAndFinish exampleConfig (exampleSurface blank) detailsPage
               = Some (Inl ReserveTimedOut, w')
           \<and> now detailsPage + RESERVE_MAX_WAIT_MS exampleConfig \<le> now w'
           \<and> exitCode exampleConfig (exampleSurface blank) sundayMorning = Some 1)"
proof -
  have retry: "0 < RESERVE_RETRY_MS exampleConfig"
    by (simp add: exampleConfig_def)
  have never: "\<forall>t. \<not> visibleAt (exampleSurface blank) ReserveBtn t
                 \<and> \<not> visibleAt (exampleSurface blank) WaitlistBtn t"
    by (simp add: example_visibleAt blank_def)
  then have quiet: "\<forall>t. now detailsPage \<le> t \<and> t < now detailsPage + RESERVE_MAX_WAIT_MS exampleConfig
      \<longrightarrow> \<not> visibleAt (exampleSurface blank) ReserveBtn t
          \<and> \<not> visibleAt (exampleSurface blank) WaitlistBtn
               (t + int (latency (exampleSurface blank) (IsVisible ReserveBtn) t))"
    by simp
  from polling_times_out [OF example_reaches retry quiet] example_reaches [of blank] retry never
  show ?thesis
    by blast
qed

section \<open>The two waits\<close>




































end
